theory Spec2Isabelle
  imports Main
begin

section \<open>Python values used by the GraphQL layer\<close>

subsection \<open>\<open>int(str)\<close> and \<open>str(int)\<close>\<close>

text \<open>
  \<open>merge_cache_ttl\<close> parses a header value with \<open>int(ttl_header)\<close> and writes the result
  back with \<open>str(ttl_value)\<close>. A header value is a string of single-byte characters (the
  HTTP layer decodes header bytes one to one), which is what \<open>string\<close> is here.

  \<open>int\<close> on a string strips surrounding white space, reads an optional sign and then a
  non-empty run of decimal digits in which single underscores may stand between digits;
  anything else raises \<open>ValueError\<close>. CPython also refuses (with \<open>ValueError\<close>) a literal of
  more than \<open>int_max_str_digits\<close> digits. \<open>py_int\<close> returns \<open>None\<close> where Python raises.
\<close>

definition is_space :: "char \<Rightarrow> bool" where
  "is_space c \<longleftrightarrow>
     of_char c \<in> set [9, 10, 11, 12, 13, 28, 29, 30, 31, 32, 133, 160 :: nat]"

definition is_digit :: "char \<Rightarrow> bool" where
  "is_digit c \<longleftrightarrow> (48::nat) \<le> of_char c \<and> of_char c \<le> (57::nat)"

definition strip :: "string \<Rightarrow> string" where
  "strip s = rev (dropWhile is_space (rev (dropWhile is_space s)))"

fun split_underscore :: "string \<Rightarrow> string list" where
  "split_underscore [] = [[]]"
| "split_underscore (c # cs) =
     (if c = CHR ''_'' then [] # split_underscore cs
      else (case split_underscore cs of g # gs \<Rightarrow> (c # g) # gs | [] \<Rightarrow> [[c]]))"

definition digits_value :: "string \<Rightarrow> nat" where
  "digits_value ds = foldl (\<lambda>a c. 10 * a + (of_char c - 48)) 0 ds"

definition int_max_str_digits :: nat where
  "int_max_str_digits = 4300"

definition parse_digits :: "string \<Rightarrow> nat option" where
  "parse_digits body =
     (let groups = split_underscore body in
      if list_all (\<lambda>g. g \<noteq> [] \<and> list_all is_digit g) groups
         \<and> length (concat groups) \<le> int_max_str_digits
      then Some (digits_value (concat groups))
      else None)"

definition py_int :: "string \<Rightarrow> int option" where
  "py_int s =
     (case strip s of
        [] \<Rightarrow> None
      | c # r \<Rightarrow>
          if c = CHR ''-'' then map_option (\<lambda>n. - int n) (parse_digits r)
          else if c = CHR ''+'' then map_option int (parse_digits r)
          else map_option int (parse_digits (c # r)))"

fun dec :: "nat \<Rightarrow> string" where
  "dec n = (if n < 10 then [char_of (48 + n)] else dec (n div 10) @ [char_of (48 + n mod 10)])"

declare dec.simps [simp del]

definition py_str :: "int \<Rightarrow> string" where
  "py_str n = (if n < 0 then CHR ''-'' # dec (nat (- n)) else dec (nat n))"

section \<open>The request context (\<open>app/graphql/context.py\<close>)\<close>

text \<open>
  A response is its header table. \<open>settings\<close> is the application's configuration object,
  of which this layer reads one field, the name of the cache TTL header.
\<close>

record response =
  headers :: "string \<rightharpoonup> string"

record settings =
  cache_ttl_header :: string

record 'req GraphQLContext =
  request :: 'req
  response :: response
  cache_ttl :: "int option"

definition merge_cache_ttl ::
  "settings \<Rightarrow> 'req GraphQLContext \<Rightarrow> string option \<Rightarrow> 'req GraphQLContext" where
  "merge_cache_ttl st self ttl_header =
     (case ttl_header of
        None \<Rightarrow> self
      | Some h \<Rightarrow>
          (case py_int h of
             None \<Rightarrow> self
           | Some ttl_value \<Rightarrow>
               if cache_ttl self = None \<or> ttl_value < the (cache_ttl self)
               then self\<lparr>cache_ttl := Some ttl_value,
                         response := (response self)\<lparr>headers :=
                           (headers (response self))(cache_ttl_header st \<mapsto> py_str ttl_value)\<rparr>\<rparr>
               else self))"

definition build_context :: "'req \<Rightarrow> response \<Rightarrow> 'req GraphQLContext" where
  "build_context req resp = \<lparr>request = req, response = resp, cache_ttl = None\<rparr>"

text \<open>A sequence of calls on one context, in the order they are made.\<close>

definition merge_all ::
  "settings \<Rightarrow> 'req GraphQLContext \<Rightarrow> string option list \<Rightarrow> 'req GraphQLContext" where
  "merge_all st self ttl_headers = foldl (merge_cache_ttl st) self ttl_headers"

text \<open>The values of a sequence of header arguments that \<open>int\<close> accepts, in order.\<close>

definition parsed :: "string option list \<Rightarrow> int list" where
  "parsed ttl_headers = List.map_filter (\<lambda>v. Option.bind v py_int) ttl_headers"

section \<open>Enumerations and the enum crosswalk (\<open>app/graphql/schema.py\<close>, \<open>types.py\<close>)\<close>

text \<open>
  The values the crosswalk handles are enum members and the plain values they carry.
  \<open>Raw c\<close> is a plain value (a string, say) with value code \<open>c\<close>; \<open>Member n v\<close> is the
  member of the enum class named \<open>n\<close> whose \<open>.value\<close> is \<open>v\<close>. A member's value may itself be
  a member of another class, which is how a graph enum can hold a backend enum.
\<close>

datatype 'c pyval = Raw 'c | Member string "'c pyval"

text \<open>
  What a call can raise: the built-in exceptions this layer meets, a model's
  \<open>ValidationError\<close>, and \<open>DownstreamError\<close> for an error the backend defines, told apart
  by its message.
\<close>

datatype error = ValueError | AttributeError | ValidationError | DownstreamError string

text \<open>
  An enum class is its name and the values of its members, in declaration order. The
  backend enums \<open>Role\<close>, \<open>Locale\<close> and \<open>HeroKey\<close> are declared outside the sources at hand,
  and the graph enums are built from them by the GraphQL library (\<open>types.py\<close>); the classes
  are therefore parameters, collected in \<open>enums\<close>.
\<close>

record 'c enum_class =
  cls_name :: string
  member_values :: "'c pyval list"

record 'c enums =
  Role :: "'c enum_class"
  Locale :: "'c enum_class"
  HeroKey :: "'c enum_class"
  RoleEnum :: "'c enum_class"
  LocaleEnum :: "'c enum_class"
  HeroKeyEnum :: "'c enum_class"


definition isinstance :: "'c pyval \<Rightarrow> 'c enum_class \<Rightarrow> bool" where
  "isinstance x cls = (case x of Member n v \<Rightarrow> n = cls_name cls | Raw c \<Rightarrow> False)"

text \<open>\<open>x.value\<close>: only an enum member has the attribute.\<close>

definition dot_value :: "'c pyval \<Rightarrow> error + 'c pyval" where
  "dot_value x = (case x of Member n v \<Rightarrow> Inr v | Raw c \<Rightarrow> Inl AttributeError)"

text \<open>
  \<open>cls(x)\<close>, the lookup of a member by value: a member of \<open>cls\<close> is returned as it is, a
  value of one of the members gives that member, and anything else raises \<open>ValueError\<close>
  (the specification's \<open>UnknownEnumValue\<close>).
\<close>

definition enum_call :: "'c enum_class \<Rightarrow> 'c pyval \<Rightarrow> error + 'c pyval" where
  "enum_call cls x =
     (if isinstance x cls then Inr x
      else if x \<in> set (member_values cls) then Inr (Member (cls_name cls) x)
      else Inl ValueError)"

text \<open>A list comprehension whose element expression may raise: the first failure ends it.\<close>

primrec comprehension :: "('a \<Rightarrow> error + 'b) \<Rightarrow> 'a list \<Rightarrow> error + 'b list" where
  "comprehension f [] = Inr []"
| "comprehension f (x # xs) =
     (case f x of
        Inl e \<Rightarrow> Inl e
      | Inr y \<Rightarrow> (case comprehension f xs of Inl e \<Rightarrow> Inl e | Inr ys \<Rightarrow> Inr (y # ys)))"

definition convert_role :: "'c enums \<Rightarrow> 'c pyval option \<Rightarrow> error + 'c pyval option" where
  "convert_role E role =
     (case role of
        None \<Rightarrow> Inr None
      | Some r \<Rightarrow>
          (case dot_value r of
             Inl e \<Rightarrow> Inl e
           | Inr v \<Rightarrow>
               if isinstance v (Role E) then Inr (Some v)
               else (case enum_call (Role E) v of Inl e \<Rightarrow> Inl e | Inr m \<Rightarrow> Inr (Some m))))"

definition convert_locale :: "'c enums \<Rightarrow> 'c pyval \<Rightarrow> error + 'c pyval" where
  "convert_locale E locale =
     (case dot_value locale of
        Inl e \<Rightarrow> Inl e
      | Inr v \<Rightarrow> if isinstance v (Locale E) then Inr v else enum_call (Locale E) v)"

definition enum_to_hero_key :: "'c enums \<Rightarrow> 'c pyval \<Rightarrow> error + 'c pyval" where
  "enum_to_hero_key E enum_member =
     (case dot_value enum_member of
        Inl e \<Rightarrow> Inl e
      | Inr v \<Rightarrow> if isinstance v (HeroKey E) then Inr v else enum_call (HeroKey E) v)"

definition convert_keys :: "'c enums \<Rightarrow> 'c pyval list \<Rightarrow> error + 'c pyval list" where
  "convert_keys E keys = comprehension (enum_to_hero_key E) keys"

definition hero_key_to_enum :: "'c enums \<Rightarrow> 'c pyval \<Rightarrow> error + 'c pyval" where
  "hero_key_to_enum E hero_key =
     (case enum_call (HeroKeyEnum E) hero_key of
        Inr m \<Rightarrow> Inr m
      | Inl e \<Rightarrow>
          if e = ValueError
          then (case dot_value hero_key of
                  Inl e' \<Rightarrow> Inl e'
                | Inr v \<Rightarrow> enum_call (HeroKeyEnum E) v)
          else Inl e)"

definition role_to_enum :: "'c enums \<Rightarrow> 'c pyval \<Rightarrow> error + 'c pyval" where
  "role_to_enum E role =
     (case enum_call (RoleEnum E) role of
        Inr m \<Rightarrow> Inr m
      | Inl e \<Rightarrow>
          if e = ValueError
          then (case dot_value role of
                  Inl e' \<Rightarrow> Inl e'
                | Inr v \<Rightarrow> enum_call (RoleEnum E) v)
          else Inl e)"


section \<open>The controller bridge\<close>

text \<open>
  A downstream controller is opaque: built on the request and a scratch response, its
  \<open>process_request\<close> takes the keyword arguments and either raises or returns a payload,
  leaving its caching signal in the scratch response. What lies behind the controllers is
  a state \<open>'s\<close> that a call may read and change.

  \<open>world\<close> is what one GraphQL operation runs against: the context (\<open>info.context\<close>), the
  downstream state, and \<open>awaited\<close>, the log of the \<open>process_request\<close> calls made so far
  (what a test's mock records), kept only so that theorems can count them.
\<close>

datatype controller_name = ListHeroesController | GetHeroController

type_synonym ('req, 'kw, 's, 'p) process_request =
  "'req \<Rightarrow> response \<Rightarrow> 'kw \<Rightarrow> 's \<Rightarrow> (error + 'p) \<times> response \<times> 's"

record ('req, 'kw, 's, 'p) controller_cls =
  controller :: controller_name
  process_request :: "('req, 'kw, 's, 'p) process_request"

record ('req, 's) world =
  info_context :: "'req GraphQLContext"
  downstream :: 's
  awaited :: "controller_name list"

definition new_response :: response where
  "new_response = \<lparr>headers = Map.empty\<rparr>"

definition run_controller ::
  "settings \<Rightarrow> ('req, 's) world \<Rightarrow> ('req, 'kw, 's, 'p) controller_cls \<Rightarrow> 'kw
     \<Rightarrow> (error + 'p) \<times> ('req, 's) world" where
  "run_controller st info controller_cls kwargs =
     (let temp_response = new_response in
      case process_request controller_cls (request (info_context info)) temp_response kwargs
             (downstream info) of
        (outcome, temp_response', s') \<Rightarrow>
          (let info' = info\<lparr>downstream := s',
                            awaited := awaited info @ [controller controller_cls]\<rparr> in
           case outcome of
             Inl e \<Rightarrow> (Inl e, info')
           | Inr payload \<Rightarrow>
               (Inr payload,
                info'\<lparr>info_context :=
                  merge_cache_ttl st (info_context info')
                    (headers temp_response' (cache_ttl_header st))\<rparr>)))"

definition parse_models :: "('item \<Rightarrow> 'm option) \<Rightarrow> 'item list \<Rightarrow> error + 'm list" where
  "parse_models model_validate data =
     comprehension
       (\<lambda>item. case model_validate item of None \<Rightarrow> Inl ValidationError | Some m \<Rightarrow> Inr m)
       data"

section \<open>Entity nodes and the \<open>heroes\<close> field\<close>

text \<open>
  Modelled from the spec: the short entity \<open>HeroShort\<close> is declared outside the sources at
  hand; it is the record of key, display name, portrait reference and role that
  \<open>_make_hero_node\<close> and \<open>_filter_by_keys\<close> read. The portrait is kept in its text form. The
  detail entity \<open>Hero\<close> is a type parameter. Both are validated models, whose instances
  always count as true in a condition, so \<open>if x := d.get(k)\<close> asks whether \<open>k\<close> is in \<open>d\<close>. A
  model's \<open>model_validate\<close> is a parameter that returns \<open>None\<close> where it raises.
\<close>

record 'c HeroShort =
  short_key :: "'c pyval"
  short_name :: string
  short_portrait :: string
  short_role :: "'c pyval"

record ('c, 'hero) HeroNode =
  key :: "'c pyval"
  name :: string
  portrait :: string
  role :: "'c pyval"
  details_cache :: "'c pyval \<rightharpoonup> 'hero"

definition load_details ::
  "settings \<Rightarrow> 'c enums
     \<Rightarrow> ('req, 'c pyval \<times> 'c pyval, 's, 'dp) controller_cls \<Rightarrow> ('dp \<Rightarrow> 'hero option)
     \<Rightarrow> ('c, 'hero) HeroNode \<Rightarrow> ('req, 's) world \<Rightarrow> 'c pyval
     \<Rightarrow> (error + 'hero) \<times> ('c, 'hero) HeroNode \<times> ('req, 's) world" where
  "load_details st E GetHero Hero_model_validate self info locale =
     (case dot_value locale of
        Inl e \<Rightarrow> (Inl e, self, info)
      | Inr cache_key \<Rightarrow>
          (case details_cache self cache_key of
             Some cached \<Rightarrow> (Inr cached, self, info)
           | None \<Rightarrow>
               (case enum_to_hero_key E (key self) of
                  Inl e \<Rightarrow> (Inl e, self, info)
                | Inr hero_key \<Rightarrow>
                    (case convert_locale E locale of
                       Inl e \<Rightarrow> (Inl e, self, info)
                     | Inr loc \<Rightarrow>
                         (case run_controller st info GetHero (hero_key, loc) of
                            (Inl e, info') \<Rightarrow> (Inl e, self, info')
                          | (Inr payload, info') \<Rightarrow>
                              (case Hero_model_validate payload of
                                 None \<Rightarrow> (Inl ValidationError, self, info')
                               | Some hero \<Rightarrow>
                                   (Inr hero,
                                    self\<lparr>details_cache :=
                                      (details_cache self)(cache_key \<mapsto> hero)\<rparr>,
                                    info')))))))"

definition make_hero_node :: "'c enums \<Rightarrow> 'c HeroShort \<Rightarrow> error + ('c, 'hero) HeroNode" where
  "make_hero_node E hero_short =
     (case hero_key_to_enum E (short_key hero_short) of
        Inl e \<Rightarrow> Inl e
      | Inr k \<Rightarrow>
          (case role_to_enum E (short_role hero_short) of
             Inl e \<Rightarrow> Inl e
           | Inr r \<Rightarrow>
               Inr \<lparr>key = k, name = short_name hero_short,
                    portrait = short_portrait hero_short, role = r,
                    details_cache = Map.empty\<rparr>))"

text \<open>The dict comprehension \<open>{hero.key: hero for hero in hero_shorts}\<close>.\<close>

definition by_key_of :: "'c HeroShort list \<Rightarrow> ('c pyval \<rightharpoonup> 'c HeroShort)" where
  "by_key_of hero_shorts = foldl (\<lambda>d hero. d(short_key hero \<mapsto> hero)) Map.empty hero_shorts"

definition filter_by_keys :: "'c HeroShort list \<Rightarrow> 'c pyval list \<Rightarrow> 'c HeroShort list" where
  "filter_by_keys hero_shorts keys =
     (if keys = [] then hero_shorts
      else
        (let by_key = by_key_of hero_shorts in
         foldl (\<lambda>filtered key. case by_key key of
                                  Some hero \<Rightarrow> filtered @ [hero]
                                | None \<Rightarrow> filtered)
           [] keys))"

definition heroes ::
  "settings \<Rightarrow> 'c enums
     \<Rightarrow> ('req, 'c pyval option \<times> 'c pyval, 's, 'item list) controller_cls
     \<Rightarrow> ('item \<Rightarrow> 'c HeroShort option)
     \<Rightarrow> ('req, 's) world \<Rightarrow> 'c pyval option \<Rightarrow> 'c pyval \<Rightarrow> 'c pyval list option
     \<Rightarrow> (error + ('c, 'hero) HeroNode list) \<times> ('req, 's) world" where
  "heroes st E ListHeroes HeroShort_model_validate info =
     (\<lambda>role locale keys.
      case convert_role E role of
        Inl e \<Rightarrow> (Inl e, info)
      | Inr r \<Rightarrow>
          (case convert_locale E locale of
             Inl e \<Rightarrow> (Inl e, info)
           | Inr loc \<Rightarrow>
               (case run_controller st info ListHeroes (r, loc) of
                  (Inl e, info') \<Rightarrow> (Inl e, info')
                | (Inr payload, info') \<Rightarrow>
                    (case parse_models HeroShort_model_validate payload of
                       Inl e \<Rightarrow> (Inl e, info')
                     | Inr hero_shorts \<Rightarrow>
                         (case (if keys = None \<or> keys = Some [] then Inr []
                                else convert_keys E (the keys)) of
                            Inl e \<Rightarrow> (Inl e, info')
                          | Inr hero_keys \<Rightarrow>
                              (comprehension (make_hero_node E)
                                 (filter_by_keys hero_shorts hero_keys),
                               info'))))))"

section \<open>Auxiliary notions for the statements\<close>




text \<open>Concrete settings and a concrete outbound response for the examples.\<close>

definition settings0 :: settings where
  "settings0 = \<lparr>cache_ttl_header = ''X-Cache-TTL''\<rparr>"

definition response0 :: response where
  "response0 = \<lparr>headers = [''content-type'' \<mapsto> ''application/json'']\<rparr>"

text \<open>
  The three conversions to the backend representation share one body, and so do the two
  conversions to the graph representation; \<open>to_domain\<close> and \<open>to_wire\<close> are those bodies,
  over any class.
\<close>

definition to_domain :: "'c enum_class \<Rightarrow> 'c pyval \<Rightarrow> error + 'c pyval" where
  "to_domain cls x =
     (case x of
        Raw c \<Rightarrow> Inl AttributeError
      | Member n v \<Rightarrow> if isinstance v cls then Inr v else enum_call cls v)"

definition to_wire :: "'c enum_class \<Rightarrow> 'c pyval \<Rightarrow> error + 'c pyval" where
  "to_wire cls y =
     (if isinstance y cls then Inr y
      else if y \<in> set (member_values cls) then Inr (Member (cls_name cls) y)
      else (case y of
              Raw c \<Rightarrow> Inl AttributeError
            | Member n v \<Rightarrow> enum_call cls v))"

text \<open>
  Example enums, one pair in each style of declaration: the graph \<open>Role\<close> enum is the
  backend class itself, the graph \<open>Locale\<close> enum is a class of its own over the same value
  codes, and the members of the graph \<open>HeroKey\<close> enum carry the backend members.
\<close>

definition Role0 :: "string enum_class" where
  "Role0 = \<lparr>cls_name = ''Role'',
            member_values = [Raw ''damage'', Raw ''support'', Raw ''tank'']\<rparr>"

definition Locale0 :: "string enum_class" where
  "Locale0 = \<lparr>cls_name = ''Locale'', member_values = [Raw ''en-us'', Raw ''fr-fr'']\<rparr>"

definition LocaleEnum0 :: "string enum_class" where
  "LocaleEnum0 = \<lparr>cls_name = ''LocaleEnum'', member_values = [Raw ''en-us'', Raw ''fr-fr'']\<rparr>"

definition HeroKey0 :: "string enum_class" where
  "HeroKey0 = \<lparr>cls_name = ''HeroKey'',
               member_values = [Raw ''ana'', Raw ''lucio'', Raw ''sojourn'']\<rparr>"

definition HeroKeyEnum0 :: "string enum_class" where
  "HeroKeyEnum0 = \<lparr>cls_name = ''HeroKeyEnum'',
                   member_values = map (Member ''HeroKey'')
                     [Raw ''ana'', Raw ''lucio'', Raw ''sojourn'']\<rparr>"

definition enums0 :: "string enums" where
  "enums0 = \<lparr>Role = Role0, Locale = Locale0, HeroKey = HeroKey0,
              RoleEnum = Role0, LocaleEnum = LocaleEnum0, HeroKeyEnum = HeroKeyEnum0\<rparr>"

text \<open>
  Example short entities: three heroes in the downstream order \<open>A, B, C\<close>, an entity
  \<open>short_A2\<close> that repeats the key of \<open>A\<close> under another name, and a key \<open>Z\<close> that no
  entity has.
\<close>

definition key_A :: "string pyval" where "key_A = Member ''HeroKey'' (Raw ''ana'')"
definition key_B :: "string pyval" where "key_B = Member ''HeroKey'' (Raw ''lucio'')"
definition key_C :: "string pyval" where "key_C = Member ''HeroKey'' (Raw ''sojourn'')"
definition key_Z :: "string pyval" where "key_Z = Member ''HeroKey'' (Raw ''zarya'')"

definition short_A :: "string HeroShort" where
  "short_A = \<lparr>short_key = key_A, short_name = ''Ana'',
              short_portrait = ''https://example.com/ana.png'',
              short_role = Member ''Role'' (Raw ''support'')\<rparr>"

definition short_B :: "string HeroShort" where
  "short_B = \<lparr>short_key = key_B, short_name = ''Lucio'',
              short_portrait = ''https://example.com/lucio.png'',
              short_role = Member ''Role'' (Raw ''support'')\<rparr>"

definition short_C :: "string HeroShort" where
  "short_C = \<lparr>short_key = key_C, short_name = ''Sojourn'',
              short_portrait = ''https://example.com/sojourn.png'',
              short_role = Member ''Role'' (Raw ''damage'')\<rparr>"

definition short_A2 :: "string HeroShort" where
  "short_A2 = \<lparr>short_key = key_A, short_name = ''Ana (again)'',
               short_portrait = ''https://example.com/ana-2.png'',
               short_role = Member ''Role'' (Raw ''support'')\<rparr>"

text \<open>
  Example collaborators. The downstream state is a counter of the calls served. The
  detail controller answers with a payload and a TTL of 60; the failing one leaves a TTL
  of 5 in its scratch response and then raises; the list controller answers with the
  entities \<open>A, B, C\<close> and a TTL of 600. The example models validate every payload.
\<close>

definition world0 :: "(unit, nat) world" where
  "world0 = \<lparr>info_context = merge_cache_ttl settings0 (build_context () response0) (Some ''30''),
             downstream = 0, awaited = []\<rparr>"

definition detail_controller0 :: "(unit, string pyval \<times> string pyval, nat, string) controller_cls" where
  "detail_controller0 =
     \<lparr>controller = GetHeroController,
      process_request = (\<lambda>req resp kwargs s.
        (Inr ''ana-details'',
         resp\<lparr>headers := (headers resp)(''X-Cache-TTL'' \<mapsto> ''60'')\<rparr>, Suc s))\<rparr>"

definition failing_controller0 :: "(unit, string pyval \<times> string pyval, nat, string) controller_cls" where
  "failing_controller0 =
     \<lparr>controller = GetHeroController,
      process_request = (\<lambda>req resp kwargs s.
        (Inl (DownstreamError ''504 Gateway Timeout''),
         resp\<lparr>headers := (headers resp)(''X-Cache-TTL'' \<mapsto> ''5'')\<rparr>, Suc s))\<rparr>"

definition list_controller0 ::
  "(unit, string pyval option \<times> string pyval, nat, string HeroShort list) controller_cls" where
  "list_controller0 =
     \<lparr>controller = ListHeroesController,
      process_request = (\<lambda>req resp kwargs s.
        (Inr [short_A, short_B, short_C],
         resp\<lparr>headers := (headers resp)(''X-Cache-TTL'' \<mapsto> ''600'')\<rparr>, Suc s))\<rparr>"

definition node_A :: "(string, string) HeroNode" where
  "node_A = \<lparr>key = Member ''HeroKeyEnum'' key_A, name = ''Ana'',
             portrait = ''https://example.com/ana.png'',
             role = Member ''Role'' (Raw ''support''), details_cache = Map.empty\<rparr>"

definition locale_en :: "string pyval" where
  "locale_en = Member ''LocaleEnum'' (Raw ''en-us'')"

definition node_B :: "(string, string) HeroNode" where
  "node_B = \<lparr>key = Member ''HeroKeyEnum'' key_B, name = ''Lucio'',
             portrait = ''https://example.com/lucio.png'',
             role = Member ''Role'' (Raw ''support''), details_cache = Map.empty\<rparr>"

definition node_C :: "(string, string) HeroNode" where
  "node_C = \<lparr>key = Member ''HeroKeyEnum'' key_C, name = ''Sojourn'',
             portrait = ''https://example.com/sojourn.png'',
             role = Member ''Role'' (Raw ''damage''), details_cache = Map.empty\<rparr>"

text \<open>
  \<open>wraps E h nd\<close>: the node \<open>nd\<close> is the short entity \<open>h\<close> wrapped as \<open>_make_hero_node\<close> wraps
  it, with key and role in the graph representation and nothing memoized.
\<close>

definition wraps :: "'c enums \<Rightarrow> 'c HeroShort \<Rightarrow> ('c, 'hero) HeroNode \<Rightarrow> bool" where
  "wraps E h nd \<longleftrightarrow>
     hero_key_to_enum E (short_key h) = Inr (key nd) \<and>
     name nd = short_name h \<and>
     portrait nd = short_portrait h \<and>
     role_to_enum E (short_role h) = Inr (role nd) \<and>
     details_cache nd = Map.empty"

section \<open>The cache TTL of a context\<close>

subsection \<open>One call\<close>

lemma merge_cache_ttl_None [simp]: "merge_cache_ttl st c None = c"
  by (simp add: merge_cache_ttl_def)


lemma merge_cache_ttl_parsed:
  "py_int h = Some n \<Longrightarrow>
   merge_cache_ttl st c (Some h) =
     (if cache_ttl c = None \<or> n < the (cache_ttl c)
      then c\<lparr>cache_ttl := Some n,
             response := (response c)\<lparr>headers :=
               (headers (response c))(cache_ttl_header st \<mapsto> py_str n)\<rparr>\<rparr>
      else c)"
  by (simp add: merge_cache_ttl_def)



lemma request_merge [simp]: "request (merge_cache_ttl st c v) = request c"
  by (cases v) (auto simp: merge_cache_ttl_def split: option.splits)


subsection \<open>A sequence of calls\<close>

lemma merge_all_Nil [simp]: "merge_all st c [] = c"
  by (simp add: merge_all_def)

lemma merge_all_Cons [simp]:
  "merge_all st c (v # vs) = merge_all st (merge_cache_ttl st c v) vs"
  by (simp add: merge_all_def)

lemma parsed_Nil [simp]: "parsed [] = []"
  unfolding parsed_def by (simp add: List.map_filter_simps)




lemma request_merge_all [simp]: "request (merge_all st c vs) = request c"
  by (induction vs arbitrary: c) simp_all





subsection \<open>Evaluations used by the examples\<close>

lemma py_int_examples:
  "py_int ''30'' = Some 30" "py_int ''10'' = Some 10" "py_int ''20'' = Some 20"
  "py_int ''40'' = Some 40" "py_int ''abc'' = None" "py_int ''-5'' = Some (- 5)"
  "py_int '' 1_000 '' = Some 1000" "py_int ''1__0'' = None" "py_int [] = None"
  by code_simp+

lemma py_str_examples:
  "py_str 10 = ''10''" "py_str 30 = ''30''" "py_str (- 5) = ''-5''" "py_str 0 = ''0''"
  by code_simp+

subsection \<open>The claims about the context\<close>








section \<open>The enum crosswalk\<close>

subsection \<open>The shared bodies\<close>

lemma enum_call_error: "enum_call cls x = Inl e \<Longrightarrow> e = ValueError"
  by (auto simp: enum_call_def split: if_splits)

lemma convert_locale_eq: "convert_locale E = to_domain (Locale E)"
  by (rule ext) (simp add: convert_locale_def to_domain_def dot_value_def split: pyval.splits)

lemma enum_to_hero_key_eq: "enum_to_hero_key E = to_domain (HeroKey E)"
  by (rule ext) (simp add: enum_to_hero_key_def to_domain_def dot_value_def split: pyval.splits)

lemma convert_role_eq:
  "convert_role E (Some x) =
     (case to_domain (Role E) x of Inl e \<Rightarrow> Inl e | Inr d \<Rightarrow> Inr (Some d))"
  by (simp add: convert_role_def to_domain_def dot_value_def split: pyval.splits)

lemma hero_key_to_enum_eq: "hero_key_to_enum E = to_wire (HeroKeyEnum E)"
  by (rule ext)
     (simp add: hero_key_to_enum_def to_wire_def enum_call_def dot_value_def split: pyval.splits)

lemma role_to_enum_eq: "role_to_enum E = to_wire (RoleEnum E)"
  by (rule ext)
     (simp add: role_to_enum_def to_wire_def enum_call_def dot_value_def split: pyval.splits)

lemma isinstance_Member [simp]: "isinstance (Member n v) cls \<longleftrightarrow> n = cls_name cls"
  by (simp add: isinstance_def)

lemma isinstance_Raw [simp]: "\<not> isinstance (Raw c) cls"
  by (simp add: isinstance_def)








subsection \<open>The claims about the crosswalk\<close>




text \<open>Evaluated on the example enums, in each style of declaration.\<close>

lemma crosswalk_examples:
  "convert_role enums0 (Some (Member ''Role'' (Raw ''support'')))
     = Inr (Some (Member ''Role'' (Raw ''support'')))"
  "role_to_enum enums0 (Member ''Role'' (Raw ''support'')) = Inr (Member ''Role'' (Raw ''support''))"
  "convert_role enums0 None = Inr None"
  "convert_locale enums0 (Member ''LocaleEnum'' (Raw ''fr-fr''))
     = Inr (Member ''Locale'' (Raw ''fr-fr''))"
  "enum_to_hero_key enums0 (Member ''HeroKeyEnum'' (Member ''HeroKey'' (Raw ''ana'')))
     = Inr (Member ''HeroKey'' (Raw ''ana''))"
  "hero_key_to_enum enums0 (Member ''HeroKey'' (Raw ''ana''))
     = Inr (Member ''HeroKeyEnum'' (Member ''HeroKey'' (Raw ''ana'')))"
  "convert_locale enums0 (Member ''LocaleEnum'' (Raw ''xx-xx'')) = Inl ValueError"
  "hero_key_to_enum enums0 (Member ''HeroKey'' (Raw ''nobody'')) = Inl ValueError"
  "convert_locale enums0 (Raw ''en-us'') = Inl AttributeError"
  by (simp_all add: convert_role_def convert_locale_def enum_to_hero_key_def
      hero_key_to_enum_def role_to_enum_def enum_call_def dot_value_def enums0_def Role0_def
      Locale0_def LocaleEnum0_def HeroKey0_def HeroKeyEnum0_def)

text \<open>
  C7. Every conversion distinguishes three cases by the value under its input. To the
  backend side (\<open>_convert_role\<close>, \<open>_convert_locale\<close>, \<open>_enum_to_hero_key\<close>): a value that is
  already a backend member is returned as it is; otherwise a value of a backend member
  gives that member; otherwise the conversion fails with \<open>ValueError\<close>, the
  specification's \<open>UnknownEnumValue\<close>. To the graph side (\<open>_role_to_enum\<close>,
  \<open>_hero_key_to_enum\<close>): an input that is already a graph member is returned as it is; an
  input that is the value of a graph member, or whose own value is, gives that member;
  and when neither the input nor its value is known to the graph enum the conversion
  fails with \<open>ValueError\<close>.
\<close>

theorem crosswalk_cases:
  "(isinstance v (Locale E) \<longrightarrow> convert_locale E (Member n v) = Inr v) \<and>
   (\<not> isinstance v (Locale E) \<and> v \<in> set (member_values (Locale E)) \<longrightarrow>
      convert_locale E (Member n v) = Inr (Member (cls_name (Locale E)) v)) \<and>
   (\<not> isinstance v (Locale E) \<and> v \<notin> set (member_values (Locale E)) \<longrightarrow>
      convert_locale E (Member n v) = Inl ValueError) \<and>
   (isinstance v (HeroKey E) \<longrightarrow> enum_to_hero_key E (Member n v) = Inr v) \<and>
   (\<not> isinstance v (HeroKey E) \<and> v \<in> set (member_values (HeroKey E)) \<longrightarrow>
      enum_to_hero_key E (Member n v) = Inr (Member (cls_name (HeroKey E)) v)) \<and>
   (\<not> isinstance v (HeroKey E) \<and> v \<notin> set (member_values (HeroKey E)) \<longrightarrow>
      enum_to_hero_key E (Member n v) = Inl ValueError) \<and>
   (isinstance v (Role E) \<longrightarrow> convert_role E (Some (Member n v)) = Inr (Some v)) \<and>
   (\<not> isinstance v (Role E) \<and> v \<in> set (member_values (Role E)) \<longrightarrow>
      convert_role E (Some (Member n v)) = Inr (Some (Member (cls_name (Role E)) v))) \<and>
   (\<not> isinstance v (Role E) \<and> v \<notin> set (member_values (Role E)) \<longrightarrow>
      convert_role E (Some (Member n v)) = Inl ValueError) \<and>
   (isinstance y (RoleEnum E) \<longrightarrow> role_to_enum E y = Inr y) \<and>
   (\<not> isinstance y (RoleEnum E) \<and> y \<in> set (member_values (RoleEnum E)) \<longrightarrow>
      role_to_enum E y = Inr (Member (cls_name (RoleEnum E)) y)) \<and>
   (\<not> isinstance (Member n v) (RoleEnum E) \<and> Member n v \<notin> set (member_values (RoleEnum E))
      \<and> isinstance v (RoleEnum E) \<longrightarrow> role_to_enum E (Member n v) = Inr v) \<and>
   (\<not> isinstance (Member n v) (RoleEnum E) \<and> Member n v \<notin> set (member_values (RoleEnum E))
      \<and> \<not> isinstance v (RoleEnum E) \<and> v \<in> set (member_values (RoleEnum E)) \<longrightarrow>
      role_to_enum E (Member n v) = Inr (Member (cls_name (RoleEnum E)) v)) \<and>
   (\<not> isinstance (Member n v) (RoleEnum E) \<and> Member n v \<notin> set (member_values (RoleEnum E))
      \<and> \<not> isinstance v (RoleEnum E) \<and> v \<notin> set (member_values (RoleEnum E)) \<longrightarrow>
      role_to_enum E (Member n v) = Inl ValueError) \<and>
   (isinstance y (HeroKeyEnum E) \<longrightarrow> hero_key_to_enum E y = Inr y) \<and>
   (\<not> isinstance y (HeroKeyEnum E) \<and> y \<in> set (member_values (HeroKeyEnum E)) \<longrightarrow>
      hero_key_to_enum E y = Inr (Member (cls_name (HeroKeyEnum E)) y)) \<and>
   (\<not> isinstance (Member n v) (HeroKeyEnum E)
      \<and> Member n v \<notin> set (member_values (HeroKeyEnum E))
      \<and> isinstance v (HeroKeyEnum E) \<longrightarrow> hero_key_to_enum E (Member n v) = Inr v) \<and>
   (\<not> isinstance (Member n v) (HeroKeyEnum E)
      \<and> Member n v \<notin> set (member_values (HeroKeyEnum E))
      \<and> \<not> isinstance v (HeroKeyEnum E) \<and> v \<in> set (member_values (HeroKeyEnum E)) \<longrightarrow>
      hero_key_to_enum E (Member n v) = Inr (Member (cls_name (HeroKeyEnum E)) v)) \<and>
   (\<not> isinstance (Member n v) (HeroKeyEnum E)
      \<and> Member n v \<notin> set (member_values (HeroKeyEnum E))
      \<and> \<not> isinstance v (HeroKeyEnum E) \<and> v \<notin> set (member_values (HeroKeyEnum E)) \<longrightarrow>
      hero_key_to_enum E (Member n v) = Inl ValueError)"
proof -
  have dom: "(isinstance v cls \<longrightarrow> to_domain cls (Member n v) = Inr v) \<and>
      (\<not> isinstance v cls \<and> v \<in> set (member_values cls) \<longrightarrow>
         to_domain cls (Member n v) = Inr (Member (cls_name cls) v)) \<and>
      (\<not> isinstance v cls \<and> v \<notin> set (member_values cls) \<longrightarrow>
         to_domain cls (Member n v) = Inl ValueError)" for cls :: "'a enum_class"
    by (simp add: to_domain_def enum_call_def)
  have wire: "(isinstance y cls \<longrightarrow> to_wire cls y = Inr y) \<and>
      (\<not> isinstance y cls \<and> y \<in> set (member_values cls) \<longrightarrow>
         to_wire cls y = Inr (Member (cls_name cls) y)) \<and>
      (\<not> isinstance (Member n v) cls \<and> Member n v \<notin> set (member_values cls)
         \<and> isinstance v cls \<longrightarrow> to_wire cls (Member n v) = Inr v) \<and>
      (\<not> isinstance (Member n v) cls \<and> Member n v \<notin> set (member_values cls)
         \<and> \<not> isinstance v cls \<and> v \<in> set (member_values cls) \<longrightarrow>
         to_wire cls (Member n v) = Inr (Member (cls_name cls) v)) \<and>
      (\<not> isinstance (Member n v) cls \<and> Member n v \<notin> set (member_values cls)
         \<and> \<not> isinstance v cls \<and> v \<notin> set (member_values cls) \<longrightarrow>
         to_wire cls (Member n v) = Inl ValueError)" for cls :: "'a enum_class"
    by (simp add: to_wire_def enum_call_def del: isinstance_Member)
  from dom [of "Locale E"] dom [of "HeroKey E"] dom [of "Role E"]
    wire [of "RoleEnum E"] wire [of "HeroKeyEnum E"]
  show ?thesis
    unfolding convert_locale_eq enum_to_hero_key_eq convert_role_eq role_to_enum_eq
      hero_key_to_enum_eq
    by simp
qed
lemma enums0_classes:
  "Role enums0 = Role0" "Locale enums0 = Locale0" "HeroKey enums0 = HeroKey0"
  "RoleEnum enums0 = Role0" "LocaleEnum enums0 = LocaleEnum0" "HeroKeyEnum enums0 = HeroKeyEnum0"
  by (simp_all add: enums0_def)

lemma classes0:
  "cls_name Role0 = ''Role''"
  "member_values Role0 = [Raw ''damage'', Raw ''support'', Raw ''tank'']"
  "cls_name Locale0 = ''Locale''"
  "member_values Locale0 = [Raw ''en-us'', Raw ''fr-fr'']"
  "cls_name LocaleEnum0 = ''LocaleEnum''"
  "member_values LocaleEnum0 = [Raw ''en-us'', Raw ''fr-fr'']"
  "cls_name HeroKey0 = ''HeroKey''"
  "member_values HeroKey0 = [Raw ''ana'', Raw ''lucio'', Raw ''sojourn'']"
  "cls_name HeroKeyEnum0 = ''HeroKeyEnum''"
  "member_values HeroKeyEnum0 =
     [Member ''HeroKey'' (Raw ''ana''), Member ''HeroKey'' (Raw ''lucio''),
      Member ''HeroKey'' (Raw ''sojourn'')]"
  by (simp_all add: Role0_def Locale0_def LocaleEnum0_def HeroKey0_def HeroKeyEnum0_def)

theorem crosswalk_cases_witness:
  "convert_locale enums0 (Member ''LocaleEnum'' (Raw ''fr-fr''))
     = Inr (Member ''Locale'' (Raw ''fr-fr'')) \<and>
   role_to_enum enums0 (Member ''Role'' (Raw ''tank'')) = Inr (Member ''Role'' (Raw ''tank'')) \<and>
   enum_to_hero_key enums0 (Member ''HeroKeyEnum'' (Member ''HeroKey'' (Raw ''ana'')))
     = Inr (Member ''HeroKey'' (Raw ''ana'')) \<and>
   hero_key_to_enum enums0 (Member ''HeroKey'' (Raw ''ana''))
     = Inr (Member ''HeroKeyEnum'' (Member ''HeroKey'' (Raw ''ana''))) \<and>
   convert_role enums0 (Some (Member ''Role'' (Raw ''support'')))
     = Inr (Some (Member ''Role'' (Raw ''support''))) \<and>
   convert_locale enums0 (Member ''LocaleEnum'' (Raw ''nobody'')) = Inl ValueError \<and>
   enum_to_hero_key enums0 (Member ''HeroKeyEnum'' (Raw ''nobody'')) = Inl ValueError \<and>
   convert_role enums0 (Some (Member ''Role'' (Raw ''nobody''))) = Inl ValueError \<and>
   hero_key_to_enum enums0 (Member ''HeroKey'' (Raw ''nobody'')) = Inl ValueError \<and>
   role_to_enum enums0 (Member ''Other'' (Raw ''nobody'')) = Inl ValueError \<and>
   role_to_enum enums0 (Member ''Other'' (Raw ''tank'')) = Inr (Member ''Role'' (Raw ''tank''))"
proof -
  from crosswalk_cases
    [of "Raw ''fr-fr''" enums0 "''LocaleEnum''" "Member ''Role'' (Raw ''tank'')"]
  have a: "convert_locale enums0 (Member ''LocaleEnum'' (Raw ''fr-fr''))
             = Inr (Member ''Locale'' (Raw ''fr-fr''))"
    and b: "role_to_enum enums0 (Member ''Role'' (Raw ''tank''))
             = Inr (Member ''Role'' (Raw ''tank''))"
    by (simp_all add: enums0_classes classes0)
  from crosswalk_cases
    [of "Member ''HeroKey'' (Raw ''ana'')" enums0 "''HeroKeyEnum''"
        "Member ''HeroKey'' (Raw ''ana'')"]
  have c: "enum_to_hero_key enums0 (Member ''HeroKeyEnum'' (Member ''HeroKey'' (Raw ''ana'')))
             = Inr (Member ''HeroKey'' (Raw ''ana''))"
    and d: "hero_key_to_enum enums0 (Member ''HeroKey'' (Raw ''ana''))
             = Inr (Member ''HeroKeyEnum'' (Member ''HeroKey'' (Raw ''ana'')))"
    by (simp_all add: enums0_classes classes0)
  from crosswalk_cases [of "Raw ''support''" enums0 "''Role''" "Raw ''support''"]
  have e: "convert_role enums0 (Some (Member ''Role'' (Raw ''support'')))
             = Inr (Some (Member ''Role'' (Raw ''support'')))"
    by (simp add: enums0_classes classes0)
  from crosswalk_cases [of "Raw ''nobody''" enums0 "''LocaleEnum''" "Raw ''nobody''"]
  have f: "convert_locale enums0 (Member ''LocaleEnum'' (Raw ''nobody'')) = Inl ValueError"
    by (simp add: enums0_classes classes0)
  from crosswalk_cases [of "Raw ''nobody''" enums0 "''HeroKeyEnum''" "Raw ''nobody''"]
  have g: "enum_to_hero_key enums0 (Member ''HeroKeyEnum'' (Raw ''nobody'')) = Inl ValueError"
    by (simp add: enums0_classes classes0)
  from crosswalk_cases [of "Raw ''nobody''" enums0 "''Role''" "Raw ''nobody''"]
  have h: "convert_role enums0 (Some (Member ''Role'' (Raw ''nobody''))) = Inl ValueError"
    by (simp add: enums0_classes classes0)
  from crosswalk_cases [of "Raw ''nobody''" enums0 "''HeroKey''" "Raw ''nobody''"]
  have i: "hero_key_to_enum enums0 (Member ''HeroKey'' (Raw ''nobody'')) = Inl ValueError"
    by (simp add: enums0_classes classes0)
  from crosswalk_cases [of "Raw ''nobody''" enums0 "''Other''" "Raw ''nobody''"]
  have j: "role_to_enum enums0 (Member ''Other'' (Raw ''nobody'')) = Inl ValueError"
    by (simp add: enums0_classes classes0)
  from crosswalk_cases [of "Raw ''tank''" enums0 "''Other''" "Raw ''tank''"]
  have k: "role_to_enum enums0 (Member ''Other'' (Raw ''tank''))
             = Inr (Member ''Role'' (Raw ''tank''))"
    by (simp add: enums0_classes classes0)
  from a b c d e f g h i j k show ?thesis by simp
qed

section \<open>The key filter\<close>

lemma by_key_of_Nil [simp]: "by_key_of [] = Map.empty"
  by (simp add: by_key_of_def)

lemma by_key_of_snoc: "by_key_of (hs @ [h]) = (by_key_of hs)(short_key h \<mapsto> h)"
  by (simp add: by_key_of_def)

lemma by_key_of_last:
  "by_key_of hs k =
     (if filter (\<lambda>h. short_key h = k) hs = [] then None
      else Some (last (filter (\<lambda>h. short_key h = k) hs)))"
  by (induction hs rule: rev_induct) (auto simp: by_key_of_snoc)

lemma by_key_of_None: "by_key_of hs k = None \<longleftrightarrow> k \<notin> short_key ` set hs"
  by (auto simp: by_key_of_last filter_empty_conv)

lemma by_key_of_Some:
  assumes "by_key_of hs k = Some h"
  shows "short_key h = k" and "h \<in> set hs"
proof -
  let ?ms = "filter (\<lambda>h. short_key h = k) hs"
  from assms have ne: "?ms \<noteq> []" and h: "h = last ?ms"
    by (auto simp: by_key_of_last split: if_splits)
  from ne have "last ?ms \<in> set ?ms" by (rule last_in_set)
  with h show "short_key h = k" and "h \<in> set hs" by auto
qed

lemma filter_loop:
  "foldl (\<lambda>filtered key. case d key of Some hero \<Rightarrow> filtered @ [hero] | None \<Rightarrow> filtered)
     acc keys = acc @ List.map_filter d keys"
  by (induction keys arbitrary: acc) (auto simp: List.map_filter_simps split: option.splits)

lemma filter_by_keys_map_filter:
  "keys \<noteq> [] \<Longrightarrow> filter_by_keys hs keys = List.map_filter (by_key_of hs) keys"
  by (simp add: filter_by_keys_def filter_loop)

lemma filter_by_keys_Nil [simp]: "filter_by_keys hs [] = hs"
  by (simp add: filter_by_keys_def)

lemma map_filter_keys:
  "map short_key (List.map_filter (by_key_of hs) keys)
     = filter (\<lambda>k. k \<in> short_key ` set hs) keys"
proof (induction keys)
  case Nil
  show ?case by (simp add: List.map_filter_simps)
next
  case (Cons k keys)
  show ?case
  proof (cases "by_key_of hs k")
    case None
    then have "k \<notin> short_key ` set hs" by (simp add: by_key_of_None)
    with None Cons.IH show ?thesis by (simp add: List.map_filter_simps)
  next
    case (Some h)
    then have "short_key h = k" and "h \<in> set hs" by (rule by_key_of_Some)+
    then have "k \<in> short_key ` set hs" by auto
    with Some \<open>short_key h = k\<close> Cons.IH show ?thesis by (simp add: List.map_filter_simps)
  qed
qed

lemma map_filter_subset: "set (List.map_filter (by_key_of hs) keys) \<subseteq> set hs"
  by (auto simp: List.map_filter_def dest: by_key_of_Some(2))

text \<open>
  C3. With a non-empty \<open>keys\<close> list the filter walks the caller's keys in the order given:
  a key found in the lookup built from the downstream list emits the entity found, a key
  not found emits nothing, and a key given twice emits twice. So the keys of the result
  are the caller's keys that occur downstream, in the caller's order and with the
  caller's repetitions, and every entity of the result is one of the downstream list.
\<close>

theorem filter_by_keys_order:
  "keys \<noteq> [] \<Longrightarrow>
   filter_by_keys hero_shorts keys = List.map_filter (by_key_of hero_shorts) keys \<and>
   map short_key (filter_by_keys hero_shorts keys)
     = filter (\<lambda>k. k \<in> short_key ` set hero_shorts) keys \<and>
   set (filter_by_keys hero_shorts keys) \<subseteq> set hero_shorts"
  by (simp add: filter_by_keys_map_filter map_filter_keys map_filter_subset)

theorem filter_by_keys_order_witness:
  "[key_C, key_A, key_C] \<noteq> [] \<and>
   filter_by_keys [short_A, short_B, short_C] [key_C, key_A, key_C]
     = [short_C, short_A, short_C] \<and>
   filter_by_keys [short_A, short_B, short_C] [key_A, key_Z] = [short_A]"
proof -
  have d: "by_key_of [short_A, short_B, short_C] key_A = Some short_A"
    "by_key_of [short_A, short_B, short_C] key_C = Some short_C"
    "by_key_of [short_A, short_B, short_C] key_Z = None"
    by (simp_all add: by_key_of_last short_A_def short_B_def short_C_def key_A_def key_B_def
        key_C_def key_Z_def)
  from filter_by_keys_order [of "[key_C, key_A, key_C]" "[short_A, short_B, short_C]"]
    filter_by_keys_order [of "[key_A, key_Z]" "[short_A, short_B, short_C]"]
  show ?thesis
    by (simp add: List.map_filter_simps d)
qed

text \<open>
  C9. The lookup keeps, for each key, the last entity of the downstream list that has
  the key. With a non-empty \<open>keys\<close> list every entity the filter emits is therefore the
  last downstream entity with its key, whatever came before it under the same key, and
  the result as a whole takes, for each caller key that occurs downstream, that last
  entity.
\<close>

theorem filter_by_keys_last_wins:
  "keys \<noteq> [] \<Longrightarrow>
   (\<forall>k. by_key_of hero_shorts k =
      (if filter (\<lambda>h. short_key h = k) hero_shorts = [] then None
       else Some (last (filter (\<lambda>h. short_key h = k) hero_shorts)))) \<and>
   (\<forall>h\<in>set (filter_by_keys hero_shorts keys).
      h = last (filter (\<lambda>x. short_key x = short_key h) hero_shorts)) \<and>
   filter_by_keys hero_shorts keys
     = map (\<lambda>k. last (filter (\<lambda>h. short_key h = k) hero_shorts))
         (filter (\<lambda>k. k \<in> short_key ` set hero_shorts) keys)"
proof (intro conjI allI ballI)
  fix k
  show "by_key_of hero_shorts k =
      (if filter (\<lambda>h. short_key h = k) hero_shorts = [] then None
       else Some (last (filter (\<lambda>h. short_key h = k) hero_shorts)))"
    by (rule by_key_of_last)
next
  assume ne: "keys \<noteq> []"
  have "List.map_filter (by_key_of hero_shorts) keys
     = map (\<lambda>k. last (filter (\<lambda>h. short_key h = k) hero_shorts))
         (filter (\<lambda>k. k \<in> short_key ` set hero_shorts) keys)"
  proof (induction keys)
    case Nil
    show ?case by (simp add: List.map_filter_simps)
  next
    case (Cons k keys)
    have "k \<in> short_key ` set hero_shorts
            \<longleftrightarrow> filter (\<lambda>h. short_key h = k) hero_shorts \<noteq> []"
      by (auto simp: filter_empty_conv)
    with Cons.IH show ?case
      by (simp add: List.map_filter_simps by_key_of_last)
  qed
  with ne show whole: "filter_by_keys hero_shorts keys
     = map (\<lambda>k. last (filter (\<lambda>h. short_key h = k) hero_shorts))
         (filter (\<lambda>k. k \<in> short_key ` set hero_shorts) keys)"
    by (simp add: filter_by_keys_map_filter)
  fix h
  assume "h \<in> set (filter_by_keys hero_shorts keys)"
  with ne obtain k where k: "by_key_of hero_shorts k = Some h"
    by (auto simp: filter_by_keys_map_filter List.map_filter_def)
  from by_key_of_Some(1) [OF k] k
  show "h = last (filter (\<lambda>x. short_key x = short_key h) hero_shorts)"
    by (auto simp: by_key_of_last split: if_splits)
qed

theorem filter_by_keys_last_wins_witness:
  "[key_A] \<noteq> [] \<and>
   short_key short_A = short_key short_A2 \<and> short_A \<noteq> short_A2 \<and>
   filter_by_keys [short_A, short_B, short_A2, short_C] [key_A] = [short_A2] \<and>
   filter_by_keys [short_A2, short_B, short_A] [key_A, key_B, key_A]
     = [short_A, short_B, short_A]"
proof -
  have s: "short_key short_A = short_key short_A2" "short_A \<noteq> short_A2"
    by (simp_all add: short_A_def short_A2_def)
  from filter_by_keys_last_wins [of "[key_A]" "[short_A, short_B, short_A2, short_C]"]
  have a: "filter_by_keys [short_A, short_B, short_A2, short_C] [key_A] = [short_A2]"
    by (simp add: short_A_def short_B_def short_C_def short_A2_def key_A_def key_B_def
        key_C_def)
  from filter_by_keys_last_wins [of "[key_A, key_B, key_A]" "[short_A2, short_B, short_A]"]
  have b: "filter_by_keys [short_A2, short_B, short_A] [key_A, key_B, key_A]
             = [short_A, short_B, short_A]"
    by (simp add: short_A_def short_B_def short_C_def short_A2_def key_A_def key_B_def
        key_C_def)
  from s a b show ?thesis by simp
qed

section \<open>The controller bridge\<close>

lemma run_controller_raise:
  assumes "process_request controller_cls (request (info_context info)) new_response kwargs
             (downstream info) = (Inl e, temp, s')"
  shows "run_controller st info controller_cls kwargs =
           (Inl e, info\<lparr>downstream := s',
                        awaited := awaited info @ [controller controller_cls]\<rparr>)"
  using assms by (simp add: run_controller_def)

lemma run_controller_return:
  assumes "process_request controller_cls (request (info_context info)) new_response kwargs
             (downstream info) = (Inr payload, temp, s')"
  shows "run_controller st info controller_cls kwargs =
           (Inr payload,
            info\<lparr>downstream := s',
                 awaited := awaited info @ [controller controller_cls],
                 info_context := merge_cache_ttl st (info_context info)
                                   (headers temp (cache_ttl_header st))\<rparr>)"
  using assms by (simp add: run_controller_def)

lemma run_controller_awaited:
  "awaited (snd (run_controller st info controller_cls kwargs))
     = awaited info @ [controller controller_cls]"
  by (simp add: run_controller_def Let_def split: prod.splits sum.splits)

text \<open>
  C8. When the controller's \<open>process_request\<close> raises, the bridge returns that same error,
  and the context it leaves is the context it found: no TTL is merged, whatever the
  controller had written to its scratch response before raising, so the stored
  \<open>cache_ttl\<close> and the outbound headers are unchanged.
\<close>

theorem run_controller_failure:
  "fst (process_request controller_cls (request (info_context info)) new_response kwargs
          (downstream info)) = Inl e \<Longrightarrow>
   fst (run_controller st info controller_cls kwargs) = Inl e \<and>
   info_context (snd (run_controller st info controller_cls kwargs)) = info_context info \<and>
   cache_ttl (info_context (snd (run_controller st info controller_cls kwargs)))
     = cache_ttl (info_context info) \<and>
   headers (response (info_context (snd (run_controller st info controller_cls kwargs))))
     = headers (response (info_context info))"
proof -
  assume raised: "fst (process_request controller_cls (request (info_context info))
                    new_response kwargs (downstream info)) = Inl e"
  then obtain temp s' where
    "process_request controller_cls (request (info_context info)) new_response kwargs
       (downstream info) = (Inl e, temp, s')"
    by (cases "process_request controller_cls (request (info_context info)) new_response
                 kwargs (downstream info)") auto
  then have "run_controller st info controller_cls kwargs =
      (Inl e, info\<lparr>downstream := s', awaited := awaited info @ [controller controller_cls]\<rparr>)"
    by (rule run_controller_raise)
  then show ?thesis by simp
qed

theorem run_controller_failure_witness:
  "fst (process_request failing_controller0 (request (info_context world0)) new_response
          (key_A, Member ''Locale'' (Raw ''en-us'')) (downstream world0))
     = Inl (DownstreamError ''504 Gateway Timeout'') \<and>
   headers (fst (snd (process_request failing_controller0 (request (info_context world0))
          new_response (key_A, Member ''Locale'' (Raw ''en-us'')) (downstream world0))))
     ''X-Cache-TTL'' = Some ''5'' \<and>
   cache_ttl (info_context world0) = Some 30 \<and>
   fst (run_controller settings0 world0 failing_controller0
          (key_A, Member ''Locale'' (Raw ''en-us'')))
     = Inl (DownstreamError ''504 Gateway Timeout'') \<and>
   cache_ttl (info_context (snd (run_controller settings0 world0 failing_controller0
          (key_A, Member ''Locale'' (Raw ''en-us''))))) = Some 30 \<and>
   headers (response (info_context (snd (run_controller settings0 world0 failing_controller0
          (key_A, Member ''Locale'' (Raw ''en-us'')))))) ''X-Cache-TTL'' = Some ''30''"
proof -
  have r: "fst (process_request failing_controller0 (request (info_context world0))
             new_response (key_A, Member ''Locale'' (Raw ''en-us'')) (downstream world0))
           = Inl (DownstreamError ''504 Gateway Timeout'')"
    by (simp add: failing_controller0_def)
  have w: "headers (fst (snd (process_request failing_controller0
             (request (info_context world0)) new_response
             (key_A, Member ''Locale'' (Raw ''en-us'')) (downstream world0))))
             ''X-Cache-TTL'' = Some ''5''"
    by (simp add: failing_controller0_def)
  have c: "cache_ttl (info_context world0) = Some 30"
    and h: "headers (response (info_context world0)) ''X-Cache-TTL'' = Some ''30''"
    by (simp_all add: world0_def merge_cache_ttl_parsed py_int_examples py_str_examples
        build_context_def settings0_def)
  from run_controller_failure [OF r, of settings0] r w c h show ?thesis by simp
qed

section \<open>The details loader\<close>

text \<open>
  C2. A detail entity memoized on the node under the locale's value is returned at once:
  the node and the world are left as they were, so no controller was called (the log of
  calls and the downstream state are unchanged) and nothing was merged into the
  context, whatever the controller would have answered. Consequently, when a first call
  on a node that has nothing memoized for the locale returns an entity, that call
  invoked the detail controller once and memoized the entity, and a second call with
  the same locale returns the same entity and invokes nothing: two calls, one
  invocation.
\<close>

theorem details_memoized:
  "(details_cache self cache_key = Some hero \<longrightarrow>
      load_details st E GetHero Hero_model_validate self info (Member n cache_key)
        = (Inr hero, self, info)) \<and>
   (details_cache self cache_key = None \<and>
    load_details st E GetHero Hero_model_validate self info (Member n cache_key)
      = (Inr hero, self', info') \<longrightarrow>
      details_cache self' cache_key = Some hero \<and>
      awaited info' = awaited info @ [controller GetHero] \<and>
      load_details st E GetHero Hero_model_validate self' info' (Member n cache_key)
        = (Inr hero, self', info') \<and>
      awaited (snd (snd (load_details st E GetHero Hero_model_validate self' info'
                           (Member n cache_key))))
        = awaited info @ [controller GetHero])"
proof (intro conjI impI)
  assume "details_cache self cache_key = Some hero"
  then show "load_details st E GetHero Hero_model_validate self info (Member n cache_key)
        = (Inr hero, self, info)"
    by (simp add: load_details_def dot_value_def)
next
  assume a: "details_cache self cache_key = None \<and>
    load_details st E GetHero Hero_model_validate self info (Member n cache_key)
      = (Inr hero, self', info')"
  then have miss: "details_cache self cache_key = None"
    and first: "load_details st E GetHero Hero_model_validate self info (Member n cache_key)
      = (Inr hero, self', info')"
    by simp_all
  from first miss have
    memo: "self' = self\<lparr>details_cache := (details_cache self)(cache_key \<mapsto> hero)\<rparr>"
    and log: "awaited info' = awaited info @ [controller GetHero]"
    by (auto simp: load_details_def dot_value_def split: sum.splits prod.splits option.splits
        dest: arg_cong [where f = "\<lambda>r. awaited (snd r)"] simp: run_controller_awaited)
  from memo show c: "details_cache self' cache_key = Some hero" by simp
  from log show "awaited info' = awaited info @ [controller GetHero]" .
  from c show second:
    "load_details st E GetHero Hero_model_validate self' info' (Member n cache_key)
       = (Inr hero, self', info')"
    by (simp add: load_details_def dot_value_def)
  from second log show
    "awaited (snd (snd (load_details st E GetHero Hero_model_validate self' info'
                           (Member n cache_key))))
        = awaited info @ [controller GetHero]"
    by simp
qed

lemma world0_context:
  "cache_ttl (info_context world0) = Some 30"
  "request (info_context world0) = ()"
  "downstream world0 = 0"
  "awaited world0 = []"
  by (simp_all add: world0_def merge_cache_ttl_parsed py_int_examples build_context_def)

lemma world0_merge_larger:
  "merge_cache_ttl settings0 (info_context world0) (Some ''60'') = info_context world0"
  "merge_cache_ttl settings0 (info_context world0) (Some ''600'') = info_context world0"
proof -
  have "py_int ''60'' = Some 60" "py_int ''600'' = Some 600" by code_simp+
  then show "merge_cache_ttl settings0 (info_context world0) (Some ''60'') = info_context world0"
    "merge_cache_ttl settings0 (info_context world0) (Some ''600'') = info_context world0"
    by (simp_all add: merge_cache_ttl_parsed world0_context)
qed

lemma load_details_first0:
  "load_details settings0 enums0 detail_controller0 Some node_A world0 locale_en
     = (Inr ''ana-details'',
        node_A\<lparr>details_cache := [Raw ''en-us'' \<mapsto> ''ana-details'']\<rparr>,
        world0\<lparr>downstream := Suc 0, awaited := [GetHeroController]\<rparr>)"
proof -
  have n: "key node_A = Member ''HeroKeyEnum'' key_A" "details_cache node_A = Map.empty"
    by (simp_all add: node_A_def)
  have k: "enum_to_hero_key enums0 (Member ''HeroKeyEnum'' key_A) = Inr key_A"
    by (simp add: enum_to_hero_key_def dot_value_def key_A_def enums0_classes classes0)
  have l: "convert_locale enums0 (Member ''LocaleEnum'' (Raw ''en-us''))
             = Inr (Member ''Locale'' (Raw ''en-us''))"
    by (simp add: convert_locale_def dot_value_def enum_call_def enums0_classes classes0)
  have r: "run_controller settings0 world0 detail_controller0
             (key_A, Member ''Locale'' (Raw ''en-us''))
           = (Inr ''ana-details'',
              world0\<lparr>downstream := Suc 0, awaited := [GetHeroController]\<rparr>)"
    by (simp add: run_controller_def detail_controller0_def new_response_def settings0_def
        world0_context world0_merge_larger [unfolded settings0_def])
  show ?thesis
    by (simp add: load_details_def dot_value_def locale_en_def n k l r)
qed

theorem details_memoized_witness:
  "details_cache node_A (Raw ''en-us'') = None \<and>
   load_details settings0 enums0 detail_controller0 Some node_A world0 locale_en
     = (Inr ''ana-details'',
        node_A\<lparr>details_cache := [Raw ''en-us'' \<mapsto> ''ana-details'']\<rparr>,
        world0\<lparr>downstream := Suc 0, awaited := [GetHeroController]\<rparr>) \<and>
   load_details settings0 enums0 detail_controller0 Some
       (node_A\<lparr>details_cache := [Raw ''en-us'' \<mapsto> ''ana-details'']\<rparr>)
       (world0\<lparr>downstream := Suc 0, awaited := [GetHeroController]\<rparr>) locale_en
     = (Inr ''ana-details'',
        node_A\<lparr>details_cache := [Raw ''en-us'' \<mapsto> ''ana-details'']\<rparr>,
        world0\<lparr>downstream := Suc 0, awaited := [GetHeroController]\<rparr>) \<and>
   load_details settings0 enums0 failing_controller0 Some
       (node_A\<lparr>details_cache := [Raw ''en-us'' \<mapsto> ''ana-details'']\<rparr>)
       (world0\<lparr>downstream := Suc 0, awaited := [GetHeroController]\<rparr>) locale_en
     = (Inr ''ana-details'',
        node_A\<lparr>details_cache := [Raw ''en-us'' \<mapsto> ''ana-details'']\<rparr>,
        world0\<lparr>downstream := Suc 0, awaited := [GetHeroController]\<rparr>)"
proof -
  have c: "details_cache node_A (Raw ''en-us'') = None"
    by (simp add: node_A_def)
  note first = load_details_first0 [unfolded locale_en_def]
  from details_memoized [of node_A "Raw ''en-us''" "''ana-details''" settings0 enums0
      detail_controller0 Some world0 "''LocaleEnum''"
      "node_A\<lparr>details_cache := [Raw ''en-us'' \<mapsto> ''ana-details'']\<rparr>"
      "world0\<lparr>downstream := Suc 0, awaited := [GetHeroController]\<rparr>"] c first
  have second: "load_details settings0 enums0 detail_controller0 Some
       (node_A\<lparr>details_cache := [Raw ''en-us'' \<mapsto> ''ana-details'']\<rparr>)
       (world0\<lparr>downstream := Suc 0, awaited := [GetHeroController]\<rparr>)
       (Member ''LocaleEnum'' (Raw ''en-us''))
     = (Inr ''ana-details'',
        node_A\<lparr>details_cache := [Raw ''en-us'' \<mapsto> ''ana-details'']\<rparr>,
        world0\<lparr>downstream := Suc 0, awaited := [GetHeroController]\<rparr>)"
    by simp
  from details_memoized [of "node_A\<lparr>details_cache := [Raw ''en-us'' \<mapsto> ''ana-details'']\<rparr>"
      "Raw ''en-us''" "''ana-details''" settings0 enums0 failing_controller0 Some
      "world0\<lparr>downstream := Suc 0, awaited := [GetHeroController]\<rparr>" "''LocaleEnum''"]
  have third: "load_details settings0 enums0 failing_controller0 Some
       (node_A\<lparr>details_cache := [Raw ''en-us'' \<mapsto> ''ana-details'']\<rparr>)
       (world0\<lparr>downstream := Suc 0, awaited := [GetHeroController]\<rparr>)
       (Member ''LocaleEnum'' (Raw ''en-us''))
     = (Inr ''ana-details'',
        node_A\<lparr>details_cache := [Raw ''en-us'' \<mapsto> ''ana-details'']\<rparr>,
        world0\<lparr>downstream := Suc 0, awaited := [GetHeroController]\<rparr>)"
    by simp
  from c first second third show ?thesis
    unfolding locale_en_def by simp
qed

end
